theory Spec2Isabelle
  imports Main "HOL-Library.AList" "HOL-Library.Sublist"
begin

section \<open>The bank policy review demo: \<open>src/review.js\<close>\<close>

text \<open>
  The script holds one piece of logic, \<open>generatePolicyReport\<close>, which counts a list
  of violation records by severity and by category, decides a pass/fail verdict and
  builds a list of recommendation strings. This theory embeds that function and the
  literal \<open>policyViolations\<close> it is applied to.

  Strings are lists of bytes, in the UTF-8 encoding of the source file. Counts are
  natural numbers: a JavaScript array has fewer than \<open>2^32\<close> elements, so every count is
  an integer that the number type holds exactly.
\<close>

subsection \<open>Data\<close>

text \<open>
  The object literals of the script, as records. The field \<open>id\<close> of a rule is named
  \<open>id_rule\<close> here. Inputs are well-typed: every violation has a rule, and severity
  and category are strings.
\<close>

record Rule =
  id_rule :: string
  name :: string
  severity :: string
  category :: string

record Violation =
  rule :: Rule
  lineNumber :: nat
  code :: string
  message :: string
  remediation :: string

subsection \<open>The object that holds the category counts\<close>

text \<open>
  \<open>summary.byCategory\<close> starts as the object literal \<open>{}\<close>, whose prototype is
  \<open>Object.prototype\<close>. Reading \<open>byCategory[k]\<close> finds an own property first and the
  inherited one otherwise, so the embedding keeps both: the own properties as an
  association list in insertion order, and the properties every plain object inherits.

  What is stored is always the result of \<open>(x || 0) + 1\<close>, a number or a string.
  (JavaScript lists the keys that are array indices before the others; the list here
  keeps the order of insertion, which is the order of every other key, and the keys of
  the literal below are no indices.)
\<close>

datatype primitive = Num nat | Str string

datatype jsval = Undefined | Prim primitive | NativeFunction string | ObjectPrototype

type_synonym js_object = "(string \<times> primitive) list"

text \<open>
  The properties of \<open>Object.prototype\<close>: eleven built-in functions (the constructor is the
  function \<open>Object\<close>) and the accessor \<open>__proto__\<close>, whose getter returns the prototype of
  the receiver, here \<open>Object.prototype\<close> itself.
\<close>

definition object_prototype :: "(string \<times> jsval) list" where
  "object_prototype =
    [(''constructor'', NativeFunction ''Object''),
     (''__defineGetter__'', NativeFunction ''__defineGetter__''),
     (''__defineSetter__'', NativeFunction ''__defineSetter__''),
     (''hasOwnProperty'', NativeFunction ''hasOwnProperty''),
     (''__lookupGetter__'', NativeFunction ''__lookupGetter__''),
     (''__lookupSetter__'', NativeFunction ''__lookupSetter__''),
     (''isPrototypeOf'', NativeFunction ''isPrototypeOf''),
     (''propertyIsEnumerable'', NativeFunction ''propertyIsEnumerable''),
     (''toString'', NativeFunction ''toString''),
     (''valueOf'', NativeFunction ''valueOf''),
     (''__proto__'', ObjectPrototype),
     (''toLocaleString'', NativeFunction ''toLocaleString'')]"

text \<open>\<open>obj[k]\<close> as an expression: own property, else inherited, else \<open>undefined\<close>.\<close>

definition get_property :: "js_object \<Rightarrow> string \<Rightarrow> jsval" where
  "get_property obj k =
    (case map_of obj k of
       Some p \<Rightarrow> Prim p
     | None \<Rightarrow> (case map_of object_prototype k of Some v \<Rightarrow> v | None \<Rightarrow> Undefined))"

text \<open>
  \<open>obj[k] = p\<close> for a primitive \<open>p\<close>. The inherited properties are writable data
  properties, so the assignment creates or updates an own property; only \<open>__proto__\<close>
  is an accessor, and its setter ignores a value that is neither an object nor
  \<open>null\<close>.
\<close>

definition set_property :: "js_object \<Rightarrow> string \<Rightarrow> primitive \<Rightarrow> js_object" where
  "set_property obj k p = (if k = ''__proto__'' then obj else AList.update k p obj)"

text \<open>
  The text a built-in function converts to (as Node.js, which the script's first line
  asks for, prints it).
\<close>

definition native_code :: "string \<Rightarrow> string" where
  "native_code f = ''function '' @ f @ ''() { [native code] }''"

text \<open>
  \<open>(x || 0) + 1\<close>. \<open>undefined\<close>, \<open>0\<close> and the empty string are falsy, so the left operand
  of \<open>+\<close> is then \<open>0\<close>. A string on the left makes \<open>+\<close> a concatenation, and an object
  on the left is converted to a string first.
\<close>

fun or_zero_plus_one :: "jsval \<Rightarrow> primitive" where
  "or_zero_plus_one Undefined = Num 1"
| "or_zero_plus_one (Prim (Num n)) = Num (n + 1)"
| "or_zero_plus_one (Prim (Str s)) = (if s = [] then Num 1 else Str (s @ ''1''))"
| "or_zero_plus_one (NativeFunction f) = Str (native_code f @ ''1'')"
| "or_zero_plus_one ObjectPrototype = Str (''[object Object]'' @ ''1'')"

text \<open>
  \<open>x > 0\<close>. \<open>undefined\<close> converts to \<open>NaN\<close>, and every comparison with \<open>NaN\<close> is false.
  A string, and an object through its string, is parsed as a numeric literal first;
  that parser is the runtime's, and is the parameter \<open>str_gt0\<close> here (\<open>str_gt0 s\<close> is
  the answer of \<open>s > 0\<close> for the string \<open>s\<close>). Everything below holds for every such
  parameter, written \<open>g\<close> in the statements: the three keys the function compares are
  never bound to a string.
\<close>

fun gt_zero :: "(string \<Rightarrow> bool) \<Rightarrow> jsval \<Rightarrow> bool" where
  "gt_zero str_gt0 Undefined = False"
| "gt_zero str_gt0 (Prim (Num n)) = (n > 0)"
| "gt_zero str_gt0 (Prim (Str s)) = str_gt0 s"
| "gt_zero str_gt0 (NativeFunction f) = str_gt0 (native_code f)"
| "gt_zero str_gt0 ObjectPrototype = str_gt0 ''[object Object]''"

text \<open>
  An instance of the parameter, for evaluating the function on concrete inputs: it
  reads an unsigned decimal integer, and takes every other string for \<open>NaN\<close>. (The
  runtime's parser also reads signs, fractions, exponents, other radixes, \<open>Infinity\<close>
  and surrounding white space.)
\<close>

definition decimal_gt0 :: "string \<Rightarrow> bool" where
  "decimal_gt0 s =
    (s \<noteq> [] \<and> list_all (\<lambda>c. c \<in> set ''0123456789'') s \<and> \<not> list_all (\<lambda>c. c = CHR ''0'') s)"

subsection \<open>Summary and report\<close>

record Summary =
  total :: nat
  critical :: nat
  high :: nat
  medium :: nat
  low :: nat
  byCategory :: js_object

record Report =
  violations :: "Violation list"
  summary :: Summary
  passed :: bool
  recommendations :: "string list"

subsection \<open>The recommendation messages\<close>

text \<open>Each message starts with an emoji, written as its four UTF-8 bytes.\<close>

definition critical_msg :: string where
  "critical_msg = [CHR 0xF0, CHR 0x9F, CHR 0x94, CHR 0xB4]
     @ '' CRITICAL: Address all critical security violations immediately''"

definition high_msg :: string where
  "high_msg = [CHR 0xF0, CHR 0x9F, CHR 0x9F, CHR 0xA0]
     @ '' HIGH: Review and fix high-priority security issues''"

definition medium_msg :: string where
  "medium_msg = [CHR 0xF0, CHR 0x9F, CHR 0x9F, CHR 0xA1]
     @ '' MEDIUM: Consider addressing medium-priority issues''"

definition data_protection_msg :: string where
  "data_protection_msg = [CHR 0xF0, CHR 0x9F, CHR 0x93, CHR 0x8A]
     @ '' Data Protection: Implement proper data handling and encryption''"

definition audit_msg :: string where
  "audit_msg = [CHR 0xF0, CHR 0x9F, CHR 0x93, CHR 0x8B]
     @ '' Audit: Add comprehensive audit logging for financial operations''"

definition security_msg :: string where
  "security_msg = [CHR 0xF0, CHR 0x9F, CHR 0x94, CHR 0x92]
     @ '' Security: Review and fix security vulnerabilities''"

subsection \<open>generatePolicyReport\<close>

text \<open>
  The body of the \<open>forEach\<close> callback, on the object it mutates:
  \<open>byCategory[c] = (byCategory[c] || 0) + 1\<close> for the category \<open>c\<close> of the violation.
\<close>

definition count_by_category :: "js_object \<Rightarrow> Violation \<Rightarrow> js_object" where
  "count_by_category byCat violation =
    set_property byCat (category (rule violation))
      (or_zero_plus_one (get_property byCat (category (rule violation))))"

text \<open>
  The function, statement by statement: the summary literal with its four filters, the
  \<open>forEach\<close> over the violations (a left fold, in list order), the verdict, and the six
  conditional \<open>push\<close>es.
\<close>

definition generatePolicyReport :: "(string \<Rightarrow> bool) \<Rightarrow> Violation list \<Rightarrow> Report" where
  "generatePolicyReport str_gt0 vs =
    (let s0 = \<lparr> total = length vs,
                 critical = length (filter (\<lambda>v. severity (rule v) = ''critical'') vs),
                 high = length (filter (\<lambda>v. severity (rule v) = ''high'') vs),
                 medium = length (filter (\<lambda>v. severity (rule v) = ''medium'') vs),
                 low = length (filter (\<lambda>v. severity (rule v) = ''low'') vs),
                 byCategory = [] \<rparr>;
         s = s0 \<lparr> byCategory := foldl count_by_category (byCategory s0) vs \<rparr>;
         p = (critical s = 0 \<and> high s = 0);
         r0 = [];
         r1 = (if critical s > 0 then r0 @ [critical_msg] else r0);
         r2 = (if high s > 0 then r1 @ [high_msg] else r1);
         r3 = (if medium s > 0 then r2 @ [medium_msg] else r2);
         r4 = (if gt_zero str_gt0 (get_property (byCategory s) ''data-protection'')
               then r3 @ [data_protection_msg] else r3);
         r5 = (if gt_zero str_gt0 (get_property (byCategory s) ''audit'')
               then r4 @ [audit_msg] else r4);
         r6 = (if gt_zero str_gt0 (get_property (byCategory s) ''security'')
               then r5 @ [security_msg] else r5)
     in \<lparr> violations = vs, summary = s, passed = p, recommendations = r6 \<rparr>)"

subsection \<open>The literal policyViolations\<close>

definition policyViolations :: "Violation list" where
  "policyViolations =
    [\<lparr> rule = \<lparr> id_rule = ''BANK_002'', name = ''Hardcoded Credentials'',
                 severity = ''critical'', category = ''security'' \<rparr>,
       lineNumber = 7,
       code = ''  password: '' @ [CHR 0x27] @ ''admin123'' @ [CHR 0x27]
         @ '', // BANK_002: Hardcoded credentials detected'',
       message = ''Hardcoded credentials detected - security risk'',
       remediation = ''Use environment variables, secure vaults, or configuration management'' \<rparr>,
     \<lparr> rule = \<lparr> id_rule = ''BANK_001'', name = ''Personal Data Exposure'',
                 severity = ''critical'', category = ''data-protection'' \<rparr>,
       lineNumber = 16,
       code = ''  console.log(`Processing customer: ${customer.ssn}`) // BANK_001: Personal data exposure'',
       message = ''Potential exposure of sensitive financial data detected'',
       remediation = ''Use encryption, masking, or secure data handling practices'' \<rparr>,
     \<lparr> rule = \<lparr> id_rule = ''BANK_003'', name = ''SQL Injection Risk'',
                 severity = ''high'', category = ''security'' \<rparr>,
       lineNumber = 29,
       code = ''  const query = `SELECT * FROM users WHERE id = ${userId}` // BANK_003: SQL injection risk'',
       message = ''Potential SQL injection vulnerability detected'',
       remediation = ''Use parameterized queries or ORM libraries'' \<rparr>,
     \<lparr> rule = \<lparr> id_rule = ''BANK_006'', name = ''Audit Trail Missing'',
                 severity = ''high'', category = ''audit'' \<rparr>,
       lineNumber = 48,
       code = ''function transferMoney(fromAccount: string, toAccount: string, amount: number) {'',
       message = ''Financial operation detected without audit logging'',
       remediation = ''Implement comprehensive audit logging for all financial operations'' \<rparr>,
     \<lparr> rule = \<lparr> id_rule = ''BANK_005'', name = ''Missing Input Validation'',
                 severity = ''medium'', category = ''security'' \<rparr>,
       lineNumber = 40,
       code = ''  const amount = req.body.amount // BANK_005: Missing input validation'',
       message = ''User input used without validation'',
       remediation = ''Implement proper input validation and sanitization'' \<rparr>]"

subsection \<open>Reading the category counts\<close>

text \<open>
  The sum of the counts an object holds, adding the values of its own properties in
  order: a number when every value is a number, and nothing (\<open>None\<close>) once a value is a
  string, which is no count.
\<close>

fun sum_of_counts :: "js_object \<Rightarrow> nat option" where
  "sum_of_counts [] = Some 0"
| "sum_of_counts ((k, Num n) # obj) = map_option (\<lambda>t. n + t) (sum_of_counts obj)"
| "sum_of_counts ((k, Str s) # obj) = None"

text \<open>A violation with a given severity and category, for concrete instances.\<close>

definition violation_of :: "string \<Rightarrow> string \<Rightarrow> Violation" where
  "violation_of sev cat =
    \<lparr> rule = \<lparr> id_rule = ''BANK_000'', name = ''Example'', severity = sev, category = cat \<rparr>,
      lineNumber = 1, code = ''x'', message = ''m'', remediation = ''r'' \<rparr>"

section \<open>The fields of the report\<close>

text \<open>Each field of the returned object, read off the function's body.\<close>

lemma report_total:
  "total (summary (generatePolicyReport g vs)) = length vs"
  by (simp add: generatePolicyReport_def Let_def)

lemma report_critical:
  "critical (summary (generatePolicyReport g vs))
     = length (filter (\<lambda>v. severity (rule v) = ''critical'') vs)"
  by (simp add: generatePolicyReport_def Let_def)

lemma report_high:
  "high (summary (generatePolicyReport g vs))
     = length (filter (\<lambda>v. severity (rule v) = ''high'') vs)"
  by (simp add: generatePolicyReport_def Let_def)

lemma report_medium:
  "medium (summary (generatePolicyReport g vs))
     = length (filter (\<lambda>v. severity (rule v) = ''medium'') vs)"
  by (simp add: generatePolicyReport_def Let_def)

lemma report_low:
  "low (summary (generatePolicyReport g vs))
     = length (filter (\<lambda>v. severity (rule v) = ''low'') vs)"
  by (simp add: generatePolicyReport_def Let_def)

lemma report_byCategory:
  "byCategory (summary (generatePolicyReport g vs)) = foldl count_by_category [] vs"
  by (simp add: generatePolicyReport_def Let_def)

lemma report_passed:
  "passed (generatePolicyReport g vs)
     = (critical (summary (generatePolicyReport g vs)) = 0
        \<and> high (summary (generatePolicyReport g vs)) = 0)"
  by (simp add: generatePolicyReport_def Let_def)

lemma report_recommendations:
  "recommendations (generatePolicyReport g vs) =
     (if critical (summary (generatePolicyReport g vs)) > 0 then [critical_msg] else []) @
     (if high (summary (generatePolicyReport g vs)) > 0 then [high_msg] else []) @
     (if medium (summary (generatePolicyReport g vs)) > 0 then [medium_msg] else []) @
     (if gt_zero g (get_property (byCategory (summary (generatePolicyReport g vs))) ''data-protection'')
      then [data_protection_msg] else []) @
     (if gt_zero g (get_property (byCategory (summary (generatePolicyReport g vs))) ''audit'')
      then [audit_msg] else []) @
     (if gt_zero g (get_property (byCategory (summary (generatePolicyReport g vs))) ''security'')
      then [security_msg] else [])"
  by (simp add: generatePolicyReport_def Let_def)

section \<open>Total and verdict\<close>

text \<open>
  C2. For every list of violations, the empty one included, \<open>summary.total\<close> is the
  length of the list.
\<close>

theorem total_is_length:
  "total (summary (generatePolicyReport g vs)) = length vs"
  by (simp add: generatePolicyReport_def Let_def)

lemma filter_empty_length:
  "(length (filter P xs) = 0) = (\<forall>x \<in> set xs. \<not> P x)"
  by (simp add: filter_empty_conv)

text \<open>
  C1. For every list of violations, \<open>passed\<close> is true exactly when the critical count
  and the high count are both zero; that is, exactly when no violation of the list has
  the severity \<open>critical\<close> or \<open>high\<close>. A violation of any other severity (medium, low,
  or a string that is no known level) never makes \<open>passed\<close> false.
\<close>

theorem passed_iff:
  "(passed (generatePolicyReport g vs) \<longleftrightarrow>
      critical (summary (generatePolicyReport g vs)) = 0
      \<and> high (summary (generatePolicyReport g vs)) = 0)
   \<and> (passed (generatePolicyReport g vs) \<longleftrightarrow>
      (\<forall>v \<in> set vs. severity (rule v) \<noteq> ''critical'' \<and> severity (rule v) \<noteq> ''high''))"
  unfolding report_passed report_critical report_high filter_empty_length by blast

theorem passed_iff_witness:
  "passed (generatePolicyReport decimal_gt0
      [violation_of ''medium'' ''security'', violation_of ''low'' ''audit'',
       violation_of ''info'' ''audit''])
   \<and> \<not> passed (generatePolicyReport decimal_gt0
      [violation_of ''medium'' ''security'', violation_of ''high'' ''audit''])
   \<and> \<not> passed (generatePolicyReport decimal_gt0 [violation_of ''critical'' ''security''])"
  using
    passed_iff [of decimal_gt0
      "[violation_of ''medium'' ''security'', violation_of ''low'' ''audit'',
        violation_of ''info'' ''audit'']", THEN conjunct2]
    passed_iff [of decimal_gt0
      "[violation_of ''medium'' ''security'', violation_of ''high'' ''audit'']", THEN conjunct2]
    passed_iff [of decimal_gt0 "[violation_of ''critical'' ''security'']", THEN conjunct2]
  by (simp add: violation_of_def)

text \<open>
  C8. On the empty list the report has total 0, has passed, and recommends nothing.
\<close>

theorem empty_report:
  "total (summary (generatePolicyReport g [])) = 0
   \<and> passed (generatePolicyReport g [])
   \<and> recommendations (generatePolicyReport g []) = []"
  by (simp add: generatePolicyReport_def Let_def get_property_def object_prototype_def)

text \<open>
  C10. The \<open>violations\<close> field of the report is the input list itself: the same
  records, in the same order. The function only reads the list; the two objects it
  writes to, \<open>summary.byCategory\<close> and \<open>recommendations\<close>, are created inside it, and
  they are the only state the embedding threads.
\<close>

theorem violations_unchanged:
  "violations (generatePolicyReport g vs) = vs"
  by (simp add: generatePolicyReport_def Let_def)

section \<open>The severity counts\<close>

text \<open>
  The four filters, and the violations none of them keeps, split the list.
\<close>

lemma severity_partition:
  "length (filter (\<lambda>v. severity (rule v) = ''critical'') vs)
   + length (filter (\<lambda>v. severity (rule v) = ''high'') vs)
   + length (filter (\<lambda>v. severity (rule v) = ''medium'') vs)
   + length (filter (\<lambda>v. severity (rule v) = ''low'') vs)
   + length (filter (\<lambda>v. severity (rule v) \<notin> {''critical'', ''high'', ''medium'', ''low''}) vs)
   = length vs"
  by (induction vs) auto

lemma severity_sum:
  "critical (summary (generatePolicyReport g vs)) + high (summary (generatePolicyReport g vs))
   + medium (summary (generatePolicyReport g vs)) + low (summary (generatePolicyReport g vs))
   + length (filter (\<lambda>v. severity (rule v) \<notin> {''critical'', ''high'', ''medium'', ''low''}) vs)
   = total (summary (generatePolicyReport g vs))"
  unfolding report_critical report_high report_medium report_low report_total
  by (rule severity_partition)

lemma unrecognized_positive:
  "(0 < length (filter (\<lambda>v. severity (rule v) \<notin> {''critical'', ''high'', ''medium'', ''low''}) vs))
   = (\<exists>v \<in> set vs. severity (rule v) \<notin> {''critical'', ''high'', ''medium'', ''low''})"
  by (simp add: filter_empty_conv)

text \<open>
  C4. When every violation of the list has one of the severities \<open>critical\<close>, \<open>high\<close>,
  \<open>medium\<close>, \<open>low\<close>, the four counts add up to the total; and when some violation has
  another severity, their sum is strictly less than the total.
\<close>

theorem severity_sum_recognized:
  "((\<forall>v \<in> set vs. severity (rule v) \<in> {''critical'', ''high'', ''medium'', ''low''}) \<longrightarrow>
      critical (summary (generatePolicyReport g vs)) + high (summary (generatePolicyReport g vs))
      + medium (summary (generatePolicyReport g vs)) + low (summary (generatePolicyReport g vs))
      = total (summary (generatePolicyReport g vs)))
   \<and> ((\<exists>v \<in> set vs. severity (rule v) \<notin> {''critical'', ''high'', ''medium'', ''low''}) \<longrightarrow>
      critical (summary (generatePolicyReport g vs)) + high (summary (generatePolicyReport g vs))
      + medium (summary (generatePolicyReport g vs)) + low (summary (generatePolicyReport g vs))
      < total (summary (generatePolicyReport g vs)))"
proof (intro conjI impI)
  assume "\<forall>v \<in> set vs. severity (rule v) \<in> {''critical'', ''high'', ''medium'', ''low''}"
  then have "length (filter (\<lambda>v. severity (rule v) \<notin> {''critical'', ''high'', ''medium'', ''low''}) vs) = 0"
    by (simp add: filter_empty_conv)
  with severity_sum [of g vs]
  show "critical (summary (generatePolicyReport g vs)) + high (summary (generatePolicyReport g vs))
      + medium (summary (generatePolicyReport g vs)) + low (summary (generatePolicyReport g vs))
      = total (summary (generatePolicyReport g vs))"
    by simp
next
  assume "\<exists>v \<in> set vs. severity (rule v) \<notin> {''critical'', ''high'', ''medium'', ''low''}"
  then have "0 < length (filter (\<lambda>v. severity (rule v) \<notin> {''critical'', ''high'', ''medium'', ''low''}) vs)"
    by (simp only: unrecognized_positive)
  with severity_sum [of g vs]
  show "critical (summary (generatePolicyReport g vs)) + high (summary (generatePolicyReport g vs))
      + medium (summary (generatePolicyReport g vs)) + low (summary (generatePolicyReport g vs))
      < total (summary (generatePolicyReport g vs))"
    by linarith
qed

theorem severity_sum_recognized_witness:
  "critical (summary (generatePolicyReport decimal_gt0 policyViolations))
     + high (summary (generatePolicyReport decimal_gt0 policyViolations))
     + medium (summary (generatePolicyReport decimal_gt0 policyViolations))
     + low (summary (generatePolicyReport decimal_gt0 policyViolations))
     = total (summary (generatePolicyReport decimal_gt0 policyViolations))
   \<and> critical (summary (generatePolicyReport decimal_gt0
          [violation_of ''low'' ''audit'', violation_of ''info'' ''audit'']))
     + high (summary (generatePolicyReport decimal_gt0
          [violation_of ''low'' ''audit'', violation_of ''info'' ''audit'']))
     + medium (summary (generatePolicyReport decimal_gt0
          [violation_of ''low'' ''audit'', violation_of ''info'' ''audit'']))
     + low (summary (generatePolicyReport decimal_gt0
          [violation_of ''low'' ''audit'', violation_of ''info'' ''audit'']))
     < total (summary (generatePolicyReport decimal_gt0
          [violation_of ''low'' ''audit'', violation_of ''info'' ''audit'']))"
proof -
  have known: "\<forall>v \<in> set policyViolations.
      severity (rule v) \<in> {''critical'', ''high'', ''medium'', ''low''}"
    by (simp add: policyViolations_def)
  have unknown: "\<exists>v \<in> set [violation_of ''low'' ''audit'', violation_of ''info'' ''audit''].
      severity (rule v) \<notin> {''critical'', ''high'', ''medium'', ''low''}"
    by (simp add: violation_of_def)
  from severity_sum_recognized [of policyViolations decimal_gt0, THEN conjunct1, THEN mp, OF known]
    severity_sum_recognized
      [of "[violation_of ''low'' ''audit'', violation_of ''info'' ''audit'']" decimal_gt0,
       THEN conjunct2, THEN mp, OF unknown]
  show ?thesis by (rule conjI)
qed

text \<open>
  C3, as stated: the four severity counts add up to the total for every list, whatever
  its severities. It fails on a single violation of severity \<open>info\<close>, which the total
  counts and no filter keeps.
\<close>

theorem severity_sum_unrecognized_counterexample:
  "critical (summary (generatePolicyReport decimal_gt0 [violation_of ''info'' ''security'']))
   + high (summary (generatePolicyReport decimal_gt0 [violation_of ''info'' ''security'']))
   + medium (summary (generatePolicyReport decimal_gt0 [violation_of ''info'' ''security'']))
   + low (summary (generatePolicyReport decimal_gt0 [violation_of ''info'' ''security'']))
   \<noteq> total (summary (generatePolicyReport decimal_gt0 [violation_of ''info'' ''security'']))"
  by (simp add: generatePolicyReport_def Let_def violation_of_def)

text \<open>
  C3, amended. For every list of violations the four severity counts add up to at most
  the total, and to the total exactly when every violation has one of the four known
  severities.
\<close>

theorem severity_sum_le_total:
  "critical (summary (generatePolicyReport g vs)) + high (summary (generatePolicyReport g vs))
      + medium (summary (generatePolicyReport g vs)) + low (summary (generatePolicyReport g vs))
      \<le> total (summary (generatePolicyReport g vs))
   \<and> (critical (summary (generatePolicyReport g vs)) + high (summary (generatePolicyReport g vs))
      + medium (summary (generatePolicyReport g vs)) + low (summary (generatePolicyReport g vs))
      = total (summary (generatePolicyReport g vs))
     \<longleftrightarrow> (\<forall>v \<in> set vs. severity (rule v) \<in> {''critical'', ''high'', ''medium'', ''low''}))"
proof -
  have "(length (filter (\<lambda>v. severity (rule v) \<notin> {''critical'', ''high'', ''medium'', ''low''}) vs) = 0)
     = (\<forall>v \<in> set vs. severity (rule v) \<in> {''critical'', ''high'', ''medium'', ''low''})"
    by (simp add: filter_empty_conv)
  with severity_sum [of g vs] show ?thesis
    by (metis add.right_neutral add_left_cancel le_add1)
qed

theorem severity_sum_le_total_witness:
  "critical (summary (generatePolicyReport decimal_gt0
        [violation_of ''critical'' ''audit'', violation_of ''low'' ''compliance'']))
     + high (summary (generatePolicyReport decimal_gt0
        [violation_of ''critical'' ''audit'', violation_of ''low'' ''compliance'']))
     + medium (summary (generatePolicyReport decimal_gt0
        [violation_of ''critical'' ''audit'', violation_of ''low'' ''compliance'']))
     + low (summary (generatePolicyReport decimal_gt0
        [violation_of ''critical'' ''audit'', violation_of ''low'' ''compliance'']))
     = total (summary (generatePolicyReport decimal_gt0
        [violation_of ''critical'' ''audit'', violation_of ''low'' ''compliance'']))"
proof -
  have known: "\<forall>v \<in> set [violation_of ''critical'' ''audit'', violation_of ''low'' ''compliance''].
      severity (rule v) \<in> {''critical'', ''high'', ''medium'', ''low''}"
    by (simp add: violation_of_def)
  with severity_sum_le_total
    [of decimal_gt0 "[violation_of ''critical'' ''audit'', violation_of ''low'' ''compliance'']"]
  show ?thesis by blast
qed

section \<open>The category counts\<close>

subsection \<open>Reading and writing a property\<close>

lemma get_property_own:
  "map_of obj k = Some p \<Longrightarrow> get_property obj k = Prim p"
  by (simp add: get_property_def)

lemma get_property_absent:
  "map_of obj k = None \<Longrightarrow> map_of object_prototype k = None \<Longrightarrow> get_property obj k = Undefined"
  by (simp add: get_property_def)

lemma not_inherited_not_proto:
  "map_of object_prototype k = None \<Longrightarrow> k \<noteq> ''__proto__''"
  by (auto simp: object_prototype_def)

lemma map_of_set_property_other:
  "k' \<noteq> k \<Longrightarrow> map_of (set_property obj k' p) k = map_of obj k"
  by (simp add: set_property_def update_conv')

lemma map_of_set_property_same:
  "k \<noteq> ''__proto__'' \<Longrightarrow> map_of (set_property obj k p) k = Some p"
  by (simp add: set_property_def update_conv')

subsection \<open>One step of the loop\<close>

lemma count_by_category_other:
  "category (rule v) \<noteq> k \<Longrightarrow> map_of (count_by_category obj v) k = map_of obj k"
  by (simp add: count_by_category_def map_of_set_property_other)

lemma count_by_category_first:
  "category (rule v) = k \<Longrightarrow> map_of object_prototype k = None \<Longrightarrow> map_of obj k = None
    \<Longrightarrow> map_of (count_by_category obj v) k = Some (Num 1)"
  by (simp add: count_by_category_def map_of_set_property_same not_inherited_not_proto
      get_property_absent)

lemma count_by_category_next:
  "category (rule v) = k \<Longrightarrow> map_of object_prototype k = None \<Longrightarrow> map_of obj k = Some (Num n)
    \<Longrightarrow> map_of (count_by_category obj v) k = Some (Num (n + 1))"
  by (simp add: count_by_category_def map_of_set_property_same not_inherited_not_proto
      get_property_own)

subsection \<open>The whole loop, at a key that plain objects do not inherit\<close>

lemma foldl_count_from_number:
  "map_of object_prototype k = None \<Longrightarrow> map_of obj k = Some (Num n)
    \<Longrightarrow> map_of (foldl count_by_category obj vs) k
        = Some (Num (n + length (filter (\<lambda>v. category (rule v) = k) vs)))"
proof (induction vs arbitrary: obj n)
  case Nil
  then show ?case by simp
next
  case (Cons v vs)
  show ?case
  proof (cases "category (rule v) = k")
    case True
    with Cons.prems have "map_of (count_by_category obj v) k = Some (Num (n + 1))"
      by (simp add: count_by_category_next)
    with Cons.IH [OF Cons.prems(1)] True show ?thesis by simp
  next
    case False
    with Cons.prems have "map_of (count_by_category obj v) k = Some (Num n)"
      by (simp add: count_by_category_other)
    with Cons.IH [OF Cons.prems(1)] False show ?thesis by simp
  qed
qed

lemma foldl_count_from_absent:
  "map_of object_prototype k = None \<Longrightarrow> map_of obj k = None
    \<Longrightarrow> map_of (foldl count_by_category obj vs) k
        = (if filter (\<lambda>v. category (rule v) = k) vs = [] then None
           else Some (Num (length (filter (\<lambda>v. category (rule v) = k) vs))))"
proof (induction vs arbitrary: obj)
  case Nil
  then show ?case by simp
next
  case (Cons v vs)
  show ?case
  proof (cases "category (rule v) = k")
    case True
    with Cons.prems have "map_of (count_by_category obj v) k = Some (Num 1)"
      by (simp add: count_by_category_first)
    from foldl_count_from_number [OF Cons.prems(1) this, of vs] True show ?thesis by simp
  next
    case False
    with Cons.prems have "map_of (count_by_category obj v) k = None"
      by (simp add: count_by_category_other)
    with Cons.IH [OF Cons.prems(1)] False show ?thesis by simp
  qed
qed

text \<open>
  At such a key the report holds the number of violations of that category, and
  \<open>undefined\<close> when there is none.
\<close>

lemma category_count:
  assumes "map_of object_prototype k = None"
  shows "get_property (byCategory (summary (generatePolicyReport g vs))) k
     = (if filter (\<lambda>v. category (rule v) = k) vs = [] then Undefined
        else Prim (Num (length (filter (\<lambda>v. category (rule v) = k) vs))))"
  using foldl_count_from_absent [OF assms, of "[]" vs] assms
  by (simp add: report_byCategory get_property_def)

lemma gt_zero_category:
  assumes "map_of object_prototype k = None"
  shows "gt_zero g (get_property (byCategory (summary (generatePolicyReport g vs))) k)
     = (\<exists>n. 0 < n \<and> get_property (byCategory (summary (generatePolicyReport g vs))) k = Prim (Num n))"
  by (simp add: category_count [OF assms])

lemma not_inherited:
  "map_of object_prototype ''data-protection'' = None"
  "map_of object_prototype ''audit'' = None"
  "map_of object_prototype ''security'' = None"
  by (simp_all add: object_prototype_def)

section \<open>The recommendations\<close>

lemma messages_distinct:
  "distinct [critical_msg, high_msg, medium_msg, data_protection_msg, audit_msg, security_msg]"
  by (simp add: critical_msg_def high_msg_def medium_msg_def data_protection_msg_def
      audit_msg_def security_msg_def)

lemma subseq_six:
  "subseq ((if a then [x1] else []) @ (if b then [x2] else []) @ (if c then [x3] else [])
      @ (if d then [x4] else []) @ (if e then [x5] else []) @ (if f then [x6] else []))
    [x1, x2, x3, x4, x5, x6]"
  by simp

text \<open>
  The three category conditions and the three severity conditions, over the input:
  each holds exactly when the list has a violation of that category or severity.
\<close>

lemma filter_positive_length:
  "(0 < length (filter P xs)) = (\<exists>x \<in> set xs. P x)"
  by (simp add: filter_empty_conv)

lemma category_positive:
  assumes "map_of object_prototype k = None"
  shows "(\<exists>n. 0 < n \<and> get_property (byCategory (summary (generatePolicyReport g vs))) k = Prim (Num n))
     = (\<exists>v \<in> set vs. category (rule v) = k)"
  by (simp add: category_count [OF assms] filter_empty_conv)

lemma gt_zero_category_input:
  assumes "map_of object_prototype k = None"
  shows "gt_zero g (get_property (byCategory (summary (generatePolicyReport g vs))) k)
     = (\<exists>v \<in> set vs. category (rule v) = k)"
  by (simp add: category_count [OF assms] filter_empty_conv)

lemma recommendations_over_input:
  "recommendations (generatePolicyReport g vs) =
     (if \<exists>v \<in> set vs. severity (rule v) = ''critical'' then [critical_msg] else []) @
     (if \<exists>v \<in> set vs. severity (rule v) = ''high'' then [high_msg] else []) @
     (if \<exists>v \<in> set vs. severity (rule v) = ''medium'' then [medium_msg] else []) @
     (if \<exists>v \<in> set vs. category (rule v) = ''data-protection'' then [data_protection_msg] else []) @
     (if \<exists>v \<in> set vs. category (rule v) = ''audit'' then [audit_msg] else []) @
     (if \<exists>v \<in> set vs. category (rule v) = ''security'' then [security_msg] else [])"
  unfolding report_recommendations [of g vs]
    gt_zero_category_input [OF not_inherited(1)]
    gt_zero_category_input [OF not_inherited(2)]
    gt_zero_category_input [OF not_inherited(3)]
    report_critical report_high report_medium filter_positive_length
  by (rule refl)

text \<open>
  C5. For every list of violations, the recommendations are a subsequence of the six
  messages in the order critical, high, medium, data protection, audit, security, with
  no message twice; and each message is in the list exactly when its condition holds:
  a positive critical, high or medium count, and a positive count stored for the
  category \<open>data-protection\<close>, \<open>audit\<close>, \<open>security\<close> respectively. Each of these
  counts is positive exactly when the input has a violation of that severity or
  category, so the list is determined by the input: it is the six messages in that
  order, each kept exactly when some violation of the input has its severity or
  category.
\<close>

theorem recommendations_in_order:
  "subseq (recommendations (generatePolicyReport g vs))
      [critical_msg, high_msg, medium_msg, data_protection_msg, audit_msg, security_msg]
   \<and> distinct (recommendations (generatePolicyReport g vs))
   \<and> (critical_msg \<in> set (recommendations (generatePolicyReport g vs))
        \<longleftrightarrow> 0 < critical (summary (generatePolicyReport g vs)))
   \<and> (high_msg \<in> set (recommendations (generatePolicyReport g vs))
        \<longleftrightarrow> 0 < high (summary (generatePolicyReport g vs)))
   \<and> (medium_msg \<in> set (recommendations (generatePolicyReport g vs))
        \<longleftrightarrow> 0 < medium (summary (generatePolicyReport g vs)))
   \<and> (data_protection_msg \<in> set (recommendations (generatePolicyReport g vs))
        \<longleftrightarrow> (\<exists>n. 0 < n \<and> get_property (byCategory (summary (generatePolicyReport g vs)))
              ''data-protection'' = Prim (Num n)))
   \<and> (audit_msg \<in> set (recommendations (generatePolicyReport g vs))
        \<longleftrightarrow> (\<exists>n. 0 < n \<and> get_property (byCategory (summary (generatePolicyReport g vs)))
              ''audit'' = Prim (Num n)))
   \<and> (security_msg \<in> set (recommendations (generatePolicyReport g vs))
        \<longleftrightarrow> (\<exists>n. 0 < n \<and> get_property (byCategory (summary (generatePolicyReport g vs)))
              ''security'' = Prim (Num n)))
   \<and> (0 < critical (summary (generatePolicyReport g vs))
        \<longleftrightarrow> (\<exists>v \<in> set vs. severity (rule v) = ''critical''))
   \<and> (0 < high (summary (generatePolicyReport g vs))
        \<longleftrightarrow> (\<exists>v \<in> set vs. severity (rule v) = ''high''))
   \<and> (0 < medium (summary (generatePolicyReport g vs))
        \<longleftrightarrow> (\<exists>v \<in> set vs. severity (rule v) = ''medium''))
   \<and> ((\<exists>n. 0 < n \<and> get_property (byCategory (summary (generatePolicyReport g vs)))
              ''data-protection'' = Prim (Num n))
        \<longleftrightarrow> (\<exists>v \<in> set vs. category (rule v) = ''data-protection''))
   \<and> ((\<exists>n. 0 < n \<and> get_property (byCategory (summary (generatePolicyReport g vs)))
              ''audit'' = Prim (Num n))
        \<longleftrightarrow> (\<exists>v \<in> set vs. category (rule v) = ''audit''))
   \<and> ((\<exists>n. 0 < n \<and> get_property (byCategory (summary (generatePolicyReport g vs)))
              ''security'' = Prim (Num n))
        \<longleftrightarrow> (\<exists>v \<in> set vs. category (rule v) = ''security''))
   \<and> recommendations (generatePolicyReport g vs) =
       (if \<exists>v \<in> set vs. severity (rule v) = ''critical'' then [critical_msg] else []) @
       (if \<exists>v \<in> set vs. severity (rule v) = ''high'' then [high_msg] else []) @
       (if \<exists>v \<in> set vs. severity (rule v) = ''medium'' then [medium_msg] else []) @
       (if \<exists>v \<in> set vs. category (rule v) = ''data-protection''
        then [data_protection_msg] else []) @
       (if \<exists>v \<in> set vs. category (rule v) = ''audit'' then [audit_msg] else []) @
       (if \<exists>v \<in> set vs. category (rule v) = ''security'' then [security_msg] else [])"
proof -
  let ?r = "generatePolicyReport g vs"
  let ?six = "[critical_msg, high_msg, medium_msg, data_protection_msg, audit_msg, security_msg]"
  have sub: "subseq (recommendations ?r) ?six"
    unfolding report_recommendations [of g vs] by (rule subseq_six)
  have d: "distinct ?six" by (rule messages_distinct)
  have dist: "distinct (recommendations ?r)"
    using sub d by (auto intro: subseqs_distinctD simp flip: in_set_subseqs)
  have mem: "set (recommendations ?r) =
      (if 0 < critical (summary ?r) then {critical_msg} else {})
      \<union> (if 0 < high (summary ?r) then {high_msg} else {})
      \<union> (if 0 < medium (summary ?r) then {medium_msg} else {})
      \<union> (if gt_zero g (get_property (byCategory (summary ?r)) ''data-protection'')
          then {data_protection_msg} else {})
      \<union> (if gt_zero g (get_property (byCategory (summary ?r)) ''audit'')
          then {audit_msg} else {})
      \<union> (if gt_zero g (get_property (byCategory (summary ?r)) ''security'')
          then {security_msg} else {})"
    by (subst report_recommendations) auto
  have c1: "critical_msg \<in> set (recommendations ?r) \<longleftrightarrow> 0 < critical (summary ?r)"
    unfolding mem using d by auto
  have c2: "high_msg \<in> set (recommendations ?r) \<longleftrightarrow> 0 < high (summary ?r)"
    unfolding mem using d by auto
  have c3: "medium_msg \<in> set (recommendations ?r) \<longleftrightarrow> 0 < medium (summary ?r)"
    unfolding mem using d by auto
  have c4: "data_protection_msg \<in> set (recommendations ?r)
      \<longleftrightarrow> gt_zero g (get_property (byCategory (summary ?r)) ''data-protection'')"
    unfolding mem using d by auto
  have c5: "audit_msg \<in> set (recommendations ?r)
      \<longleftrightarrow> gt_zero g (get_property (byCategory (summary ?r)) ''audit'')"
    unfolding mem using d by auto
  have c6: "security_msg \<in> set (recommendations ?r)
      \<longleftrightarrow> gt_zero g (get_property (byCategory (summary ?r)) ''security'')"
    unfolding mem using d by auto
  have i1: "0 < critical (summary ?r) \<longleftrightarrow> (\<exists>v \<in> set vs. severity (rule v) = ''critical'')"
    by (simp only: report_critical filter_positive_length)
  have i2: "0 < high (summary ?r) \<longleftrightarrow> (\<exists>v \<in> set vs. severity (rule v) = ''high'')"
    by (simp only: report_high filter_positive_length)
  have i3: "0 < medium (summary ?r) \<longleftrightarrow> (\<exists>v \<in> set vs. severity (rule v) = ''medium'')"
    by (simp only: report_medium filter_positive_length)
  show ?thesis
    using sub dist c1 c2 c3
      c4 [unfolded gt_zero_category [OF not_inherited(1)]]
      c5 [unfolded gt_zero_category [OF not_inherited(2)]]
      c6 [unfolded gt_zero_category [OF not_inherited(3)]]
      i1 i2 i3
      category_positive [OF not_inherited(1), of g vs]
      category_positive [OF not_inherited(2), of g vs]
      category_positive [OF not_inherited(3), of g vs]
      recommendations_over_input [of g vs]
    by (intro conjI)
qed

theorem recommendations_in_order_witness:
  "recommendations (generatePolicyReport decimal_gt0 [violation_of ''critical'' ''security''])
     = [critical_msg, security_msg]
   \<and> recommendations (generatePolicyReport decimal_gt0
        [violation_of ''low'' ''audit'', violation_of ''medium'' ''data-protection''])
     = [medium_msg, data_protection_msg, audit_msg]"
proof -
  have "recommendations (generatePolicyReport decimal_gt0 [violation_of ''critical'' ''security''])
     = [critical_msg, security_msg]"
    using recommendations_in_order [of decimal_gt0 "[violation_of ''critical'' ''security'']"]
    by (simp add: violation_of_def)
  moreover have "recommendations (generatePolicyReport decimal_gt0
        [violation_of ''low'' ''audit'', violation_of ''medium'' ''data-protection''])
     = [medium_msg, data_protection_msg, audit_msg]"
    using recommendations_in_order [of decimal_gt0
        "[violation_of ''low'' ''audit'', violation_of ''medium'' ''data-protection'']"]
    by (simp add: violation_of_def)
  ultimately show ?thesis by (rule conjI)
qed

text \<open>
  C9. For every list of violations the report has at most six recommendations: each
  of the six conditions appends at most one message.
\<close>

theorem recommendations_at_most_six:
  "length (recommendations (generatePolicyReport g vs)) \<le> 6"
  by (simp add: report_recommendations)

section \<open>The report on policyViolations\<close>

lemma policy_byCategory:
  "foldl count_by_category [] policyViolations
     = [(''security'', Num 3), (''data-protection'', Num 1), (''audit'', Num 1)]"
  by (simp add: policyViolations_def count_by_category_def get_property_def set_property_def
      object_prototype_def)

text \<open>
  C6, as stated: on the five literal violations the category counts are security 2,
  data-protection 1, audit 1 and one further category with count 1. They are not: the
  rule \<open>BANK_005\<close> (Missing Input Validation) has the category \<open>security\<close> as well, so
  the count of \<open>security\<close> is not 2, and the object has three categories, not four.
\<close>

theorem fixed_dataset_security_counterexample:
  "get_property (byCategory (summary (generatePolicyReport decimal_gt0 policyViolations)))
      ''security'' \<noteq> Prim (Num 2)
   \<and> length (byCategory (summary (generatePolicyReport decimal_gt0 policyViolations))) \<noteq> 4"
  by (simp add: report_byCategory policy_byCategory get_property_def)

text \<open>
  C6, amended. On the five literal violations the report has critical 2, high 2,
  medium 1, low 0, has not passed, counts the categories security 3, data-protection 1
  and audit 1 and no other, and recommends the six messages in the order critical,
  high, medium, data protection, audit, security.
\<close>

theorem fixed_dataset_report:
  "critical (summary (generatePolicyReport g policyViolations)) = 2
   \<and> high (summary (generatePolicyReport g policyViolations)) = 2
   \<and> medium (summary (generatePolicyReport g policyViolations)) = 1
   \<and> low (summary (generatePolicyReport g policyViolations)) = 0
   \<and> passed (generatePolicyReport g policyViolations) = False
   \<and> byCategory (summary (generatePolicyReport g policyViolations))
       = [(''security'', Num 3), (''data-protection'', Num 1), (''audit'', Num 1)]
   \<and> recommendations (generatePolicyReport g policyViolations)
       = [critical_msg, high_msg, medium_msg, data_protection_msg, audit_msg, security_msg]
   \<and> length (recommendations (generatePolicyReport g policyViolations)) = 6"
proof -
  have c: "critical (summary (generatePolicyReport g policyViolations)) = 2"
    by (simp add: report_critical policyViolations_def)
  have h: "high (summary (generatePolicyReport g policyViolations)) = 2"
    by (simp add: report_high policyViolations_def)
  have m: "medium (summary (generatePolicyReport g policyViolations)) = 1"
    by (simp add: report_medium policyViolations_def)
  have l: "low (summary (generatePolicyReport g policyViolations)) = 0"
    by (simp add: report_low policyViolations_def)
  have p: "passed (generatePolicyReport g policyViolations) = False"
    by (simp add: report_passed c)
  have b: "byCategory (summary (generatePolicyReport g policyViolations))
       = [(''security'', Num 3), (''data-protection'', Num 1), (''audit'', Num 1)]"
    by (simp only: report_byCategory policy_byCategory)
  have r: "recommendations (generatePolicyReport g policyViolations)
       = [critical_msg, high_msg, medium_msg, data_protection_msg, audit_msg, security_msg]"
    by (simp add: report_recommendations c h m b get_property_def)
  from c h m l p b r show ?thesis by simp
qed

section \<open>The sum of the category counts\<close>

lemma sum_of_counts_values:
  "sum_of_counts obj = Some t \<Longrightarrow> map_of obj k = Some p \<Longrightarrow> \<exists>n. p = Num n"
proof (induction obj arbitrary: t rule: sum_of_counts.induct)
  case 1
  then show ?case by simp
next
  case (2 k' n obj)
  then show ?case by (cases "k' = k") auto
next
  case (3 k' s obj)
  then show ?case by simp
qed

lemma sum_of_counts_update_present:
  "sum_of_counts obj = Some t \<Longrightarrow> map_of obj k = Some (Num n)
    \<Longrightarrow> sum_of_counts (AList.update k (Num (n + 1)) obj) = Some (t + 1)"
proof (induction obj arbitrary: t rule: sum_of_counts.induct)
  case 1
  then show ?case by simp
next
  case (2 k' m obj)
  then show ?case by (cases "k' = k") auto
next
  case (3 k' s obj)
  then show ?case by simp
qed

lemma sum_of_counts_update_absent:
  "sum_of_counts obj = Some t \<Longrightarrow> map_of obj k = None
    \<Longrightarrow> sum_of_counts (AList.update k (Num 1) obj) = Some (t + 1)"
proof (induction obj arbitrary: t rule: sum_of_counts.induct)
  case 1
  then show ?case by simp
next
  case (2 k' m obj)
  then show ?case by (cases "k' = k") auto
next
  case (3 k' s obj)
  then show ?case by simp
qed

lemma sum_of_counts_step:
  assumes own: "map_of object_prototype (category (rule v)) = None"
    and sum: "sum_of_counts obj = Some t"
  shows "sum_of_counts (count_by_category obj v) = Some (t + 1)"
proof (cases "map_of obj (category (rule v))")
  case None
  with own have "count_by_category obj v = AList.update (category (rule v)) (Num 1) obj"
    by (simp add: count_by_category_def set_property_def not_inherited_not_proto
        get_property_absent)
  with sum_of_counts_update_absent [OF sum None] show ?thesis by simp
next
  case (Some p)
  with sum obtain n where p: "p = Num n" by (blast dest: sum_of_counts_values)
  with Some own have "count_by_category obj v = AList.update (category (rule v)) (Num (n + 1)) obj"
    by (simp add: count_by_category_def set_property_def not_inherited_not_proto
        get_property_own)
  with sum_of_counts_update_present [OF sum Some [unfolded p]] show ?thesis by simp
qed

lemma sum_of_counts_foldl:
  "\<forall>v \<in> set vs. map_of object_prototype (category (rule v)) = None
    \<Longrightarrow> sum_of_counts obj = Some t
    \<Longrightarrow> sum_of_counts (foldl count_by_category obj vs) = Some (t + length vs)"
proof (induction vs arbitrary: obj t)
  case Nil
  then show ?case by simp
next
  case (Cons v vs)
  from Cons.prems have "sum_of_counts (count_by_category obj v) = Some (t + 1)"
    by (simp add: sum_of_counts_step)
  with Cons.IH [of "count_by_category obj v" "t + 1"] Cons.prems(1) show ?case by simp
qed

text \<open>
  As long as no category of the list is the name of a property that plain objects
  inherit, the category counts are numbers and add up to the total.
\<close>

lemma category_counts_sum_own:
  "\<forall>v \<in> set vs. map_of object_prototype (category (rule v)) = None
    \<Longrightarrow> sum_of_counts (byCategory (summary (generatePolicyReport g vs)))
        = Some (total (summary (generatePolicyReport g vs)))"
  using sum_of_counts_foldl [of vs "[]" 0] by (simp add: report_byCategory report_total)

text \<open>
  C7 says that the category counts add up to the total whenever each violation has one
  category, as every record of this embedding has. The function does not do that for a
  category that is the name of an inherited property. For the category \<open>constructor\<close>,
  \<open>byCategory[c] || 0\<close> is the inherited function \<open>Object\<close>, not \<open>0\<close>, and what is
  stored is the text of that function followed by \<open>1\<close>, a string and no count. For the
  category \<open>__proto__\<close> the assignment stores nothing at all. In both cases the total
  is 1.
\<close>

theorem inherited_category_not_counted:
  "total (summary (generatePolicyReport g [violation_of ''low'' ''constructor''])) = 1
   \<and> byCategory (summary (generatePolicyReport g [violation_of ''low'' ''constructor'']))
       = [(''constructor'', Str ''function Object() { [native code] }1'')]
   \<and> sum_of_counts (byCategory (summary (generatePolicyReport g [violation_of ''low'' ''constructor''])))
       = None
   \<and> total (summary (generatePolicyReport g [violation_of ''low'' ''__proto__''])) = 1
   \<and> byCategory (summary (generatePolicyReport g [violation_of ''low'' ''__proto__''])) = []
   \<and> sum_of_counts (byCategory (summary (generatePolicyReport g [violation_of ''low'' ''__proto__''])))
       = Some 0"
  by (simp add: generatePolicyReport_def Let_def violation_of_def count_by_category_def
      get_property_def set_property_def object_prototype_def native_code_def)

end
